theory Spec2Isabelle
  imports Main
begin

section \<open>Data model of \<^verbatim>\<open>pkg/config/config.go\<close>\<close>

text \<open>
  Go strings are byte sequences and are modelled by \<^typ>\<open>string\<close>. A Go slice is a list;
  the nil slice and the empty slice are both \<^term>\<open>[]\<close> (the code only ranges over,
  appends to and takes the length of its slices, which does not tell them apart).
\<close>

record Garden =
  Name :: string
  Identity :: string
  Context :: string
  Kubeconfig :: string
  Aliases :: "string list"

record Config =
  Gardens :: "Garden list"
  MatchPatterns :: "string list"

record PatternMatch =
  Garden :: string
  Project :: string
  Namespace :: string
  Shoot :: string

text \<open>
  Every error return of the package is one constructor; the argument is what the message
  of the Go error is built from. The two \<open>Panic\<close> constructors are the run-time panics of Go
  that the code can reach.
\<close>

datatype error =
    OpenError string
  | StatError string
  | DecodeError string
  | PathResolutionError string
  | CreateError string
  | EncodeError string
  | NotFoundError string
  | PatternCompileError string string
  | NoMatchError
  | DuplicateNameError string
  | PanicNilPointer
  | PanicIndexOutOfRange

section \<open>Name and alias lookup\<close>

fun contains :: "string list \<Rightarrow> string \<Rightarrow> bool" where
  "contains [] value = False"
| "contains (v # values) value = (if v = value then True else contains values value)"

text \<open>The loop of \<^verbatim>\<open>GardenName\<close> over \<^verbatim>\<open>config.Gardens\<close>, with its two tests per entry.\<close>

fun GardenName_loop :: "Garden list \<Rightarrow> string \<Rightarrow> error + string" where
  "GardenName_loop [] nameOrAlias = Inl (NotFoundError nameOrAlias)"
| "GardenName_loop (g # gs) nameOrAlias =
     (if Name g = nameOrAlias then Inr (Name g)
      else if contains (Aliases g) nameOrAlias then Inr (Name g)
      else GardenName_loop gs nameOrAlias)"

definition GardenName :: "Config \<Rightarrow> string \<Rightarrow> error + string" where
  "GardenName config nameOrAlias = GardenName_loop (Gardens config) nameOrAlias"

text \<open>
  The lookup as the specification words it, for comparison with the code: a first pass over
  the names, and a pass over the aliases only when no name equals the input.
\<close>

definition ResolveName_spec :: "Config \<Rightarrow> string \<Rightarrow> error + string" where
  "ResolveName_spec config nameOrAlias =
     (case find (\<lambda>g. Name g = nameOrAlias) (Gardens config) of
        Some g \<Rightarrow> Inr (Name g)
      | None \<Rightarrow>
          (case find (\<lambda>g. nameOrAlias \<in> set (Aliases g)) (Gardens config) of
             Some g \<Rightarrow> Inr (Name g)
           | None \<Rightarrow> Inl (NotFoundError nameOrAlias)))"

text \<open>Two gardens, the first of which has the name of the second as an alias.\<close>

definition alias_shadow_config :: Config where
  "alias_shadow_config =
     \<lparr>Gardens =
        [\<lparr>Name = ''prod'', Identity = '''', Context = '''', Kubeconfig = ''/k1'', Aliases = [''main'']\<rparr>,
         \<lparr>Name = ''main'', Identity = '''', Context = '''', Kubeconfig = ''/k2'', Aliases = []\<rparr>],
      MatchPatterns = []\<rparr>"

section \<open>The external collaborators\<close>

text \<open>
  The operating system, the YAML codec and the home-directory expansion are libraries
  outside the repository. The file system is a map from file names to contents; what the
  libraries answer is a parameter of the model, one field per call the code makes:
  \<^item> \<open>Open_err\<close>, \<open>Stat_err\<close>, \<open>OpenFile_err\<close>: the error of \<^verbatim>\<open>os.Open\<close>, \<^verbatim>\<open>f.Stat\<close> and
    \<^verbatim>\<open>os.OpenFile\<close> on a file name, if any;
  \<^item> \<open>yaml_Decode\<close>: the error or the document that decoding the bytes gives;
  \<^item> \<open>yaml_Encode\<close>: the bytes of a document, or the error together with the bytes that
    were written before it;
  \<^item> \<open>homedir_Expand\<close>: the error or the expanded path.
\<close>

type_synonym filesystem = "string \<rightharpoonup> string"

record os =
  Open_err :: "string \<Rightarrow> string option"
  Stat_err :: "string \<Rightarrow> string option"
  OpenFile_err :: "string \<Rightarrow> string option"
  yaml_Decode :: "string \<Rightarrow> string + Config"
  yaml_Encode :: "Config \<Rightarrow> (string \<times> string) + string"
  homedir_Expand :: "string \<Rightarrow> string + string"

text \<open>
  \<^verbatim>\<open>v1.ConfigMap\<close> of the Kubernetes API: only its \<^verbatim>\<open>Data\<close> field is read. Indexing a Go
  map with a key it does not hold gives the zero value, the empty string.
\<close>

record ConfigMap =
  Data :: "string \<rightharpoonup> string"

definition index_map :: "(string \<rightharpoonup> string) \<Rightarrow> string \<Rightarrow> string" where
  "index_map m k = (case m k of None \<Rightarrow> [] | Some v \<Rightarrow> v)"

definition newline :: char where
  "newline = CHR 0x0A"

text \<open>
  \<^verbatim>\<open>strings.Split(s, sep)\<close> of the Go library for a separator of one byte: the pieces of \<open>s\<close>
  between the occurrences of the separator, one more piece than there are occurrences.
\<close>

fun Split :: "string \<Rightarrow> char \<Rightarrow> string list" where
  "Split [] sep = [[]]"
| "Split (c # s) sep =
     (if c = sep then [] # Split s sep
      else (case Split s sep of [] \<Rightarrow> [[c]] | w # ws \<Rightarrow> (c # w) # ws))"

text \<open>\<^verbatim>\<open>strings.Join(ws, sep)\<close>, used to state what \<^const>\<open>Split\<close> undoes.\<close>

fun Join :: "string list \<Rightarrow> char \<Rightarrow> string" where
  "Join [] sep = []"
| "Join [w] sep = w"
| "Join (w # ws) sep = w @ sep # Join ws sep"

text \<open>
  The newline-separated values of a string, said without \<^const>\<open>Split\<close>: \<open>ws\<close> is a non-empty
  list of strings without newline that gives \<open>s\<close> when joined by newlines. Every string has
  exactly one such list.
\<close>

definition lines_of :: "string \<Rightarrow> string list \<Rightarrow> bool" where
  "lines_of s ws \<longleftrightarrow> ws \<noteq> [] \<and> (\<forall>w\<in>set ws. newline \<notin> set w) \<and> Join ws newline = s"

section \<open>Loading and saving\<close>

text \<open>The loop of \<^verbatim>\<open>LoadFromFile\<close> that expands \<open>~\<close> in every kubeconfig path, in order.\<close>

fun LoadFromFile_expand :: "os \<Rightarrow> Garden list \<Rightarrow> error + Garden list" where
  "LoadFromFile_expand env [] = Inr []"
| "LoadFromFile_expand env (g # gs) =
     (case homedir_Expand env (Kubeconfig g) of
        Inl err \<Rightarrow> Inl (PathResolutionError err)
      | Inr expanded \<Rightarrow>
          (case LoadFromFile_expand env gs of
             Inl e \<Rightarrow> Inl e
           | Inr gs' \<Rightarrow> Inr (g\<lparr>Kubeconfig := expanded\<rparr> # gs')))"

definition LoadFromFile :: "os \<Rightarrow> filesystem \<Rightarrow> string \<Rightarrow> error + Config" where
  "LoadFromFile env fs filename =
     (case fs filename of
        None \<Rightarrow> Inl (OpenError ''no such file or directory'')
      | Some bytes \<Rightarrow>
          (case Open_err env filename of
             Some err \<Rightarrow> Inl (OpenError err)
           | None \<Rightarrow>
               (case Stat_err env filename of
                  Some err \<Rightarrow> Inl (StatError err)
                | None \<Rightarrow>
                    (if int (length bytes) > 0 then
                       (case yaml_Decode env bytes of
                          Inl err \<Rightarrow> Inl (DecodeError err)
                        | Inr config \<Rightarrow>
                            (case LoadFromFile_expand env (Gardens config) of
                               Inl e \<Rightarrow> Inl e
                             | Inr gs \<Rightarrow> Inr (config\<lparr>Gardens := gs\<rparr>)))
                     else Inr \<lparr>Gardens = [], MatchPatterns = []\<rparr>))))"

text \<open>
  \<^verbatim>\<open>SaveToFile\<close> opens the file with \<^verbatim>\<open>O_CREATE|O_TRUNC\<close> and writes the encoded document.
  It returns the error, if any, and the file system it leaves.
\<close>

definition SaveToFile :: "os \<Rightarrow> Config \<Rightarrow> string \<Rightarrow> filesystem \<Rightarrow> error option \<times> filesystem" where
  "SaveToFile env config filename fs =
     (case OpenFile_err env filename of
        Some err \<Rightarrow> (Some (CreateError err), fs)
      | None \<Rightarrow>
          (case yaml_Encode env config of
             Inl (err, written) \<Rightarrow> (Some (EncodeError err), fs(filename \<mapsto> written))
           | Inr bytes \<Rightarrow> (None, fs(filename \<mapsto> bytes))))"

section \<open>Adding a garden\<close>

definition removeLastStrIfEmpty :: "string list \<Rightarrow> string list" where
  "removeLastStrIfEmpty strSlice =
     (if length strSlice > 0 \<and> strSlice ! (length strSlice - 1) = []
      then take (length strSlice - 1) strSlice
      else strSlice)"

text \<open>
  The loop of \<^verbatim>\<open>removeDuplicateStr\<close>, with its two variables: the map \<open>allKeys\<close> of the
  items seen and the list built so far.
\<close>

fun removeDuplicateStr_loop ::
  "(string \<rightharpoonup> bool) \<Rightarrow> string list \<Rightarrow> string list \<Rightarrow> string list" where
  "removeDuplicateStr_loop allKeys list [] = list"
| "removeDuplicateStr_loop allKeys list (item # strSlice) =
     (case allKeys item of
        None \<Rightarrow> removeDuplicateStr_loop (allKeys(item \<mapsto> True)) (list @ [item]) strSlice
      | Some value \<Rightarrow> removeDuplicateStr_loop allKeys list strSlice)"

definition removeDuplicateStr :: "string list \<Rightarrow> string list" where
  "removeDuplicateStr strSlice = removeDuplicateStr_loop Map.empty [] strSlice"

text \<open>The first loop of \<^verbatim>\<open>AddGarden\<close>: is there a garden of that name?\<close>

fun AddGarden_exists :: "Garden list \<Rightarrow> string \<Rightarrow> bool" where
  "AddGarden_exists [] name = False"
| "AddGarden_exists (g # gs) name = (if Name g = name then True else AddGarden_exists gs name)"

text \<open>
  \<^verbatim>\<open>AddGarden\<close> changes the configuration in memory and the file system; it takes both
  and returns both, with the error if there is one. \<open>clusterConfig\<close> is a pointer: the
  caller \<^verbatim>\<open>runAddGardenCommand\<close> passes nil when the download is disabled or the config map
  is not found. Reading \<^verbatim>\<open>clusterConfig.Data\<close> through nil panics, after the test for
  an existing name and before anything is changed.
\<close>

definition AddGarden ::
  "os \<Rightarrow> string \<Rightarrow> string \<Rightarrow> string \<Rightarrow> ConfigMap option \<Rightarrow> string \<Rightarrow>
   Config \<times> filesystem \<Rightarrow> error option \<times> Config \<times> filesystem" where
  "AddGarden env name kubeconfigFile contextName clusterConfig configFilename st =
     (let config = fst st; fs = snd st in
      if AddGarden_exists (Gardens config) name then (Some (DuplicateNameError name), config, fs)
      else
        (case clusterConfig of
           None \<Rightarrow> (Some PanicNilPointer, config, fs)
         | Some cm \<Rightarrow>
             (let aliasesString = index_map (Data cm) ''aliases'';
                  aliases = removeLastStrIfEmpty (Split aliasesString newline);
                  identity = index_map (Data cm) ''identity'';
                  garden = \<lparr>Name = name, Identity = identity, Context = contextName,
                            Kubeconfig = kubeconfigFile, Aliases = aliases\<rparr>;
                  config1 = config\<lparr>Gardens := Gardens config @ [garden]\<rparr>;
                  matchPatternsString = index_map (Data cm) ''global.matchPatterns'';
                  matchPatterns = removeLastStrIfEmpty (Split matchPatternsString newline);
                  config2 = config1\<lparr>MatchPatterns := MatchPatterns config1 @ matchPatterns\<rparr>;
                  config3 = config2\<lparr>MatchPatterns := removeDuplicateStr (MatchPatterns config2)\<rparr>;
                  saved = SaveToFile env config3 configFilename fs
              in (fst saved, config3, snd saved))))"

section \<open>Matching target patterns\<close>

text \<open>
  The package \<^verbatim>\<open>regexp\<close> of the Go library is outside the repository. \<^verbatim>\<open>MatchPattern\<close>
  makes three calls to it, and the model takes them as a parameter, for any type \<open>'r\<close> of
  compiled expressions:
  \<^item> \<open>Compile\<close>: the error message or the compiled expression of a pattern;
  \<^item> \<open>SubexpNames\<close>: the names of the capture groups, the empty name for an unnamed group
    and at position 0 for the whole expression;
  \<^item> \<open>FindStringSubmatch\<close>: nil (\<open>None\<close>) when the expression matches nowhere in the
    input, else the text of the leftmost match followed by the texts of the groups.
\<close>

record 'r regexp_lib =
  Compile :: "string \<Rightarrow> string + 'r"
  SubexpNames :: "'r \<Rightarrow> string list"
  FindStringSubmatch :: "'r \<Rightarrow> string \<Rightarrow> string list option"

definition PatternKeyGarden :: string where
  "PatternKeyGarden = ''garden''"

definition PatternKeyProject :: string where
  "PatternKeyProject = ''project''"

definition PatternKeyNamespace :: string where
  "PatternKeyNamespace = ''namespace''"

definition PatternKeyShoot :: string where
  "PatternKeyShoot = ''shoot''"

text \<open>
  The inner loop \<^verbatim>\<open>for i, name := range names\<close> with its \<^verbatim>\<open>switch\<close>: \<open>i\<close> is the index of
  the head of the names that are left. \<^verbatim>\<open>matches[i]\<close> is read in the four cases only, and
  panics when \<open>i\<close> is not an index of \<open>matches\<close>.
\<close>

fun MatchPattern_names ::
  "string list \<Rightarrow> nat \<Rightarrow> string list \<Rightarrow> PatternMatch \<Rightarrow> error + PatternMatch" where
  "MatchPattern_names [] i matches tm = Inr tm"
| "MatchPattern_names (name # names) i matches tm =
     (if name = PatternKeyGarden then
        (if i < length matches
         then MatchPattern_names names (Suc i) matches (tm\<lparr>Garden := matches ! i\<rparr>)
         else Inl PanicIndexOutOfRange)
      else if name = PatternKeyProject then
        (if i < length matches
         then MatchPattern_names names (Suc i) matches (tm\<lparr>Project := matches ! i\<rparr>)
         else Inl PanicIndexOutOfRange)
      else if name = PatternKeyNamespace then
        (if i < length matches
         then MatchPattern_names names (Suc i) matches (tm\<lparr>Namespace := matches ! i\<rparr>)
         else Inl PanicIndexOutOfRange)
      else if name = PatternKeyShoot then
        (if i < length matches
         then MatchPattern_names names (Suc i) matches (tm\<lparr>Shoot := matches ! i\<rparr>)
         else Inl PanicIndexOutOfRange)
      else MatchPattern_names names (Suc i) matches tm)"

text \<open>The outer loop over \<^verbatim>\<open>config.MatchPatterns\<close>.\<close>

fun MatchPattern_loop :: "'r regexp_lib \<Rightarrow> string list \<Rightarrow> string \<Rightarrow> error + PatternMatch" where
  "MatchPattern_loop lib [] value = Inl NoMatchError"
| "MatchPattern_loop lib (p # ps) value =
     (case Compile lib p of
        Inl err \<Rightarrow> Inl (PatternCompileError p err)
      | Inr r \<Rightarrow>
          (let names = SubexpNames lib r;
               matches = FindStringSubmatch lib r value
           in case matches of
                None \<Rightarrow> MatchPattern_loop lib ps value
              | Some ms \<Rightarrow>
                  MatchPattern_names names 0 ms
                    \<lparr>Garden = [], Project = [], Namespace = [], Shoot = []\<rparr>))"

definition MatchPattern :: "'r regexp_lib \<Rightarrow> Config \<Rightarrow> string \<Rightarrow> error + PatternMatch" where
  "MatchPattern lib config value = MatchPattern_loop lib (MatchPatterns config) value"

text \<open>
  What a field of the result holds, said for one key: nothing when no group has the key as
  its name, and the text of the group of that name when there is one (of the last one, if
  several groups share the name).
\<close>

definition field_of_group :: "string \<Rightarrow> string \<Rightarrow> string list \<Rightarrow> string list \<Rightarrow> bool" where
  "field_of_group key field names matches \<longleftrightarrow>
     (key \<notin> set names \<longrightarrow> field = []) \<and>
     (\<forall>i<length names. names ! i = key \<and> key \<notin> set (drop (Suc i) names) \<longrightarrow> field = matches ! i)"

text \<open>
  The \<^verbatim>\<open>switch\<close> alone, as a function of the name, the text \<open>v\<close> of \<^verbatim>\<open>matches[i]\<close> and the
  result so far; it serves to state what one round of the loop does.
\<close>

definition MatchPattern_case :: "string \<Rightarrow> string \<Rightarrow> PatternMatch \<Rightarrow> PatternMatch" where
  "MatchPattern_case name v tm =
     (if name = PatternKeyGarden then tm\<lparr>Garden := v\<rparr>
      else if name = PatternKeyProject then tm\<lparr>Project := v\<rparr>
      else if name = PatternKeyNamespace then tm\<lparr>Namespace := v\<rparr>
      else if name = PatternKeyShoot then tm\<lparr>Shoot := v\<rparr>
      else tm)"

text \<open>The four names that the \<^verbatim>\<open>switch\<close> has a case for.\<close>

definition recognized :: "string \<Rightarrow> bool" where
  "recognized name \<longleftrightarrow>
     name \<in> {PatternKeyGarden, PatternKeyProject, PatternKeyNamespace, PatternKeyShoot}"

section \<open>A fragment of Go's regular expressions\<close>

text \<open>
  To run \<^const>\<open>MatchPattern\<close> on patterns, here is one instance of the parameter: a model of
  \<^verbatim>\<open>regexp.Compile\<close>, \<^verbatim>\<open>SubexpNames\<close> and \<^verbatim>\<open>FindStringSubmatch\<close>, written from the documentation of
  the Go library, for a fragment of its syntax, on patterns and inputs in ASCII:
  literal characters, classes \<^verbatim>\<open>[a-z0-9_]\<close> and \<^verbatim>\<open>[^/]\<close>, the greedy repetitions \<^verbatim>\<open>*\<close>, \<^verbatim>\<open>+\<close>
  and \<^verbatim>\<open>?\<close> of a character or class, the anchors \<^verbatim>\<open>^\<close> and \<^verbatim>\<open>$\<close>, and groups \<^verbatim>\<open>(...)\<close> and
  \<^verbatim>\<open>(?P<name>...)\<close>. A pattern with a syntax error gets the error of the Go parser; a
  pattern that uses anything else of the syntax (alternation, escapes, repeated groups,
  counted or lazy repetition, flags) is answered with \<open>unsupported\<close> and is not modelled.
  The results about \<^const>\<open>MatchPattern\<close> hold for every library; this one serves for the
  examples.
\<close>

datatype atom = Lit char | Class bool "(char \<times> char) list"

fun in_ranges :: "(char \<times> char) list \<Rightarrow> char \<Rightarrow> bool" where
  "in_ranges [] c = False"
| "in_ranges ((lo, hi) # ranges) c =
     (if (of_char lo :: nat) \<le> of_char c \<and> (of_char c :: nat) \<le> of_char hi then True
      else in_ranges ranges c)"

fun atom_matches :: "atom \<Rightarrow> char \<Rightarrow> bool" where
  "atom_matches (Lit d) c = (c = d)"
| "atom_matches (Class negated ranges) c = (in_ranges ranges c \<noteq> negated)"

text \<open>
  A compiled expression is the sequence of its parts, in the order of the pattern, and the
  names of its groups. The capture group \<open>k\<close> lies between \<open>OpCapOpen k\<close> and \<open>OpCapClose k\<close>.
\<close>

datatype inst =
    OpChar atom
  | OpStar atom
  | OpPlus atom
  | OpQuest atom
  | OpBeginText
  | OpEndText
  | OpCapOpen nat
  | OpCapClose nat

record regexp =
  prog :: "inst list"
  subexpNames :: "string list"

fun first_some :: "('a \<Rightarrow> 'b option) \<Rightarrow> 'a list \<Rightarrow> 'b option" where
  "first_some f [] = None"
| "first_some f (x # xs) = (case f x of Some y \<Rightarrow> Some y | None \<Rightarrow> first_some f xs)"

text \<open>
  Backtracking in the order of preference of the Go library (a repetition takes as many
  characters as it can and gives them back one at a time). \<open>rest\<close> is the input still to
  read, \<open>pos\<close> the number of characters before it, \<open>st\<close> and \<open>en\<close> the positions where the
  groups began and ended.
\<close>

fun run ::
  "inst list \<Rightarrow> string \<Rightarrow> nat \<Rightarrow> nat list \<Rightarrow> nat option list \<Rightarrow>
   (nat \<times> nat list \<times> nat option list) option" where
  "run [] rest pos st en = Some (pos, st, en)"
| "run (OpChar a # is) rest pos st en =
     (case rest of
        [] \<Rightarrow> None
      | c # cs \<Rightarrow> if atom_matches a c then run is cs (Suc pos) st en else None)"
| "run (OpStar a # is) rest pos st en =
     first_some (\<lambda>k. run is (drop k rest) (pos + k) st en)
       (rev [0..<Suc (length (takeWhile (atom_matches a) rest))])"
| "run (OpPlus a # is) rest pos st en =
     first_some (\<lambda>k. run is (drop k rest) (pos + k) st en)
       (rev [1..<Suc (length (takeWhile (atom_matches a) rest))])"
| "run (OpQuest a # is) rest pos st en =
     first_some (\<lambda>k. run is (drop k rest) (pos + k) st en)
       (rev [0..<Suc (min 1 (length (takeWhile (atom_matches a) rest)))])"
| "run (OpBeginText # is) rest pos st en = (if pos = 0 then run is rest pos st en else None)"
| "run (OpEndText # is) rest pos st en = (if rest = [] then run is rest pos st en else None)"
| "run (OpCapOpen k # is) rest pos st en = run is rest pos (st[k := pos]) en"
| "run (OpCapClose k # is) rest pos st en = run is rest pos st (en[k := Some pos])"

definition submatch :: "string \<Rightarrow> nat list \<Rightarrow> nat option list \<Rightarrow> nat \<Rightarrow> string" where
  "submatch s st en k =
     (case en ! k of None \<Rightarrow> [] | Some e \<Rightarrow> take (e - st ! k) (drop (st ! k) s))"

text \<open>The leftmost match: the first start position from which the expression matches.\<close>

definition re_FindStringSubmatch :: "regexp \<Rightarrow> string \<Rightarrow> string list option" where
  "re_FindStringSubmatch re s =
     (let n = length (subexpNames re) in
      case first_some
             (\<lambda>i. run (OpCapOpen 0 # prog re @ [OpCapClose 0]) (drop i s) i
                    (replicate n 0) (replicate n None))
             [0..<Suc (length s)] of
        None \<Rightarrow> None
      | Some (e, st, en) \<Rightarrow> Some (map (submatch s st en) [0..<n]))"

definition re_SubexpNames :: "regexp \<Rightarrow> string list" where
  "re_SubexpNames re = subexpNames re"

definition isValidCaptureName :: "string \<Rightarrow> bool" where
  "isValidCaptureName name \<longleftrightarrow>
     name \<noteq> [] \<and>
     list_all (\<lambda>c. c = CHR ''_'' \<or>
        in_ranges [(CHR ''0'', CHR ''9''), (CHR ''A'', CHR ''Z''), (CHR ''a'', CHR ''z'')] c) name"

definition is_ascii :: "char \<Rightarrow> bool" where
  "is_ascii c \<longleftrightarrow> (of_char c :: nat) < 128"

text \<open>Inside a class, an escape, a nested bracket or a byte beyond ASCII is not modelled.\<close>

definition class_meta :: "char \<Rightarrow> bool" where
  "class_meta c \<longleftrightarrow> c = CHR 0x5C \<or> c = CHR ''['' \<or> \<not> is_ascii c"

text \<open>The items between the brackets of a class: ranges \<^verbatim>\<open>lo-hi\<close> and single characters.\<close>

fun class_ranges :: "string \<Rightarrow> (char \<times> char) list option" where
  "class_ranges [] = Some []"
| "class_ranges [c] = (if class_meta c then None else Some [(c, c)])"
| "class_ranges [c, d] =
     (if class_meta c \<or> class_meta d then None else Some [(c, c), (d, d)])"
| "class_ranges (lo # d # hi # body) =
     (if class_meta lo \<or> class_meta d then None
      else if d = CHR ''-'' then
        (if class_meta hi \<or> (of_char hi :: nat) < of_char lo then None
         else map_option (\<lambda>ranges. (lo, hi) # ranges) (class_ranges body))
      else map_option (\<lambda>ranges. (lo, lo) # ranges) (class_ranges (d # hi # body)))"

definition parse_class :: "string \<Rightarrow> atom option" where
  "parse_class body =
     (case body of
        [] \<Rightarrow> None
      | c # cs \<Rightarrow>
          if c = CHR ''^'' then
            (if cs = [] then None else map_option (Class True) (class_ranges cs))
          else map_option (Class False) (class_ranges body))"

definition unsupported :: string where
  "unsupported = ''outside the modelled fragment''"

text \<open>
  The parser reads the pattern from left to right. \<open>acc\<close> holds the parts read so far, last
  one first, \<open>names\<close> the names of the groups opened so far, last one first, and \<open>stack\<close>
  the groups that are open.
\<close>

function parse :: "string \<Rightarrow> inst list \<Rightarrow> string list \<Rightarrow> nat list \<Rightarrow> string + regexp" where
  "parse [] acc names stack =
     (if stack = [] then Inr \<lparr>prog = rev acc, subexpNames = rev names\<rparr>
      else Inl ''missing closing )'')"
| "parse (c # cs) acc names stack =
     (if c = CHR ''('' then
        (case cs of
           [] \<Rightarrow> Inl ''missing closing )''
         | q # cs1 \<Rightarrow>
             if q = CHR ''?'' then
               (if take 2 cs1 = ''P<'' then
                  (case dropWhile (\<lambda>x. x \<noteq> CHR ''>'') (drop 2 cs1) of
                     [] \<Rightarrow> Inl ''invalid named capture''
                   | gt # cs2 \<Rightarrow>
                       if isValidCaptureName (takeWhile (\<lambda>x. x \<noteq> CHR ''>'') (drop 2 cs1))
                       then parse cs2 (OpCapOpen (length names) # acc)
                              (takeWhile (\<lambda>x. x \<noteq> CHR ''>'') (drop 2 cs1) # names)
                              (length names # stack)
                       else Inl ''invalid named capture'')
                else Inl unsupported)
             else parse cs (OpCapOpen (length names) # acc) ([] # names) (length names # stack))
      else if c = CHR '')'' then
        (case stack of
           [] \<Rightarrow> Inl ''unexpected )''
         | k # stack' \<Rightarrow> parse cs (OpCapClose k # acc) names stack')
      else if c = CHR ''['' then
        (case dropWhile (\<lambda>x. x \<noteq> CHR '']'') cs of
           [] \<Rightarrow> Inl ''missing closing ]''
         | br # cs1 \<Rightarrow>
             (case parse_class (takeWhile (\<lambda>x. x \<noteq> CHR '']'') cs) of
                None \<Rightarrow> Inl unsupported
              | Some a \<Rightarrow> parse cs1 (OpChar a # acc) names stack))
      else if c = CHR ''*'' \<or> c = CHR ''+'' \<or> c = CHR ''?'' then
        (case acc of
           [] \<Rightarrow> Inl ''missing argument to repetition operator''
         | OpCapOpen k # acc' \<Rightarrow> Inl ''missing argument to repetition operator''
         | OpChar a # acc' \<Rightarrow>
             parse cs
               ((if c = CHR ''*'' then OpStar a else if c = CHR ''+'' then OpPlus a else OpQuest a)
                # acc')
               names stack
         | _ \<Rightarrow> Inl unsupported)
      else if c = CHR ''^'' then parse cs (OpBeginText # acc) names stack
      else if c = CHR ''$'' then parse cs (OpEndText # acc) names stack
      else if c = CHR 0x5C \<or> c = CHR ''.'' \<or> c = CHR ''|'' \<or> c = CHR ''{'' \<or> c = CHR ''}''
              \<or> c = CHR '']'' \<or> \<not> is_ascii c then Inl unsupported
      else parse cs (OpChar (Lit c) # acc) names stack)"
  by pat_completeness auto
termination
proof (relation "measure (\<lambda>(s, acc, names, stack). length s)")
  show "wf (measure (\<lambda>(s, acc, names, stack). length s))" by simp
next
  fix c q gt :: char and cs cs1 cs2 :: string and acc :: "inst list" and names :: "string list"
    and stack :: "nat list"
  assume "cs = q # cs1" and d: "dropWhile (\<lambda>x. x \<noteq> CHR ''>'') (drop 2 cs1) = gt # cs2"
  have "length (dropWhile (\<lambda>x. x \<noteq> CHR ''>'') (drop 2 cs1)) \<le> length (drop 2 cs1)"
    by (rule length_dropWhile_le)
  with d \<open>cs = q # cs1\<close>
  show "((cs2, OpCapOpen (length names) # acc,
          takeWhile (\<lambda>x. x \<noteq> CHR ''>'') (drop 2 cs1) # names, length names # stack),
         c # cs, acc, names, stack) \<in> measure (\<lambda>(s, acc, names, stack). length s)"
    by simp
next
  fix c br :: char and cs cs1 :: string and acc :: "inst list" and names :: "string list"
    and stack :: "nat list" and a :: atom
  assume d: "dropWhile (\<lambda>x. x \<noteq> CHR '']'') cs = br # cs1"
  have "length (dropWhile (\<lambda>x. x \<noteq> CHR '']'') cs) \<le> length cs"
    by (rule length_dropWhile_le)
  with d show "((cs1, OpChar a # acc, names, stack), c # cs, acc, names, stack)
      \<in> measure (\<lambda>(s, acc, names, stack). length s)"
    by simp
qed simp_all

definition re_Compile :: "string \<Rightarrow> string + regexp" where
  "re_Compile expr = parse expr [] [[]] []"

definition go_regexp :: "regexp regexp_lib" where
  "go_regexp =
     \<lparr>Compile = re_Compile, SubexpNames = re_SubexpNames,
      FindStringSubmatch = re_FindStringSubmatch\<rparr>"

section \<open>Example inputs\<close>

text \<open>An operating system that opens every file, and codecs that fail on every input.\<close>

definition example_os :: os where
  "example_os =
     \<lparr>Open_err = (\<lambda>filename. None), Stat_err = (\<lambda>filename. None),
      OpenFile_err = (\<lambda>filename. None),
      yaml_Decode = (\<lambda>bytes. Inl ''cannot decode''),
      yaml_Encode = (\<lambda>config. Inl (''cannot encode'', [])),
      homedir_Expand = (\<lambda>path. Inl ''no home directory'')\<rparr>"

definition empty_config :: Config where
  "empty_config = \<lparr>Gardens = [], MatchPatterns = []\<rparr>"

text \<open>Cluster metadata whose \<open>aliases\<close> value is the two lines \<open>a\<close> and \<open>a\<close>.\<close>

definition repeated_alias_metadata :: ConfigMap where
  "repeated_alias_metadata =
     \<lparr>Data = [''aliases'' \<mapsto> [CHR ''a'', newline, CHR ''a'', newline]]\<rparr>"

text \<open>The string \<open>p1\<close>, newline, \<open>p2\<close>, and cluster metadata that contribute it.\<close>

definition p1p2 :: string where
  "p1p2 = ''p1'' @ [newline] @ ''p2''"

definition p1p2_metadata :: ConfigMap where
  "p1p2_metadata = \<lparr>Data = [''global.matchPatterns'' \<mapsto> p1p2]\<rparr>"

text \<open>Cluster metadata whose \<open>aliases\<close> value is \<open>a\<close> followed by two newlines.\<close>

definition blank_line_alias_metadata :: ConfigMap where
  "blank_line_alias_metadata = \<lparr>Data = [''aliases'' \<mapsto> [CHR ''a'', newline, newline]]\<rparr>"


text \<open>The two patterns of the specification's example, and what they compile to.\<close>

definition garden_pattern :: string where
  "garden_pattern = ''^(?P<garden>[a-z]+)$''"

definition garden_project_pattern :: string where
  "garden_project_pattern = ''^(?P<garden>[a-z]+)/(?P<project>[a-z]+)$''"

definition two_patterns_config :: Config where
  "two_patterns_config =
     \<lparr>Gardens = [], MatchPatterns = [garden_pattern, garden_project_pattern]\<rparr>"

definition garden_regexp :: regexp where
  "garden_regexp =
     \<lparr>prog = [OpBeginText, OpCapOpen 1, OpPlus (Class False [(CHR ''a'', CHR ''z'')]),
              OpCapClose 1, OpEndText],
      subexpNames = [[], ''garden'']\<rparr>"

definition garden_project_regexp :: regexp where
  "garden_project_regexp =
     \<lparr>prog = [OpBeginText, OpCapOpen 1, OpPlus (Class False [(CHR ''a'', CHR ''z'')]),
              OpCapClose 1, OpChar (Lit (CHR ''/'')), OpCapOpen 2,
              OpPlus (Class False [(CHR ''a'', CHR ''z'')]), OpCapClose 2, OpEndText],
      subexpNames = [[], ''garden'', ''project'']\<rparr>"

text \<open>
  A pattern with two recognized groups (the second may match no text), a group of another
  name and an unnamed group; and a pattern with no recognized group.
\<close>

definition mixed_pattern :: string where
  "mixed_pattern = ''^(?P<garden>[a-z]+)/(?P<seed>[a-z]+)/([0-9]+)/(?P<shoot>[a-z]*)$''"

definition mixed_regexp :: regexp where
  "mixed_regexp =
     \<lparr>prog = [OpBeginText, OpCapOpen 1, OpPlus (Class False [(CHR ''a'', CHR ''z'')]),
              OpCapClose 1, OpChar (Lit (CHR ''/'')), OpCapOpen 2,
              OpPlus (Class False [(CHR ''a'', CHR ''z'')]), OpCapClose 2,
              OpChar (Lit (CHR ''/'')), OpCapOpen 3,
              OpPlus (Class False [(CHR ''0'', CHR ''9'')]), OpCapClose 3,
              OpChar (Lit (CHR ''/'')), OpCapOpen 4,
              OpStar (Class False [(CHR ''a'', CHR ''z'')]), OpCapClose 4, OpEndText],
      subexpNames = [[], ''garden'', ''seed'', [], ''shoot'']\<rparr>"

definition unrecognized_pattern :: string where
  "unrecognized_pattern = ''^([a-z]+)-(?P<seed>[0-9]+)$''"

definition unrecognized_regexp :: regexp where
  "unrecognized_regexp =
     \<lparr>prog = [OpBeginText, OpCapOpen 1, OpPlus (Class False [(CHR ''a'', CHR ''z'')]),
              OpCapClose 1, OpChar (Lit (CHR ''-'')), OpCapOpen 2,
              OpPlus (Class False [(CHR ''0'', CHR ''9'')]), OpCapClose 2, OpEndText],
      subexpNames = [[], [], ''seed'']\<rparr>"

section \<open>Lookup: results\<close>

lemma contains_iff: "contains values value \<longleftrightarrow> value \<in> set values"
  by (induction "values") auto

lemma GardenName_loop_find:
  "GardenName_loop gs x =
     (case find (\<lambda>g. Name g = x \<or> x \<in> set (Aliases g)) gs of
        None \<Rightarrow> Inl (NotFoundError x)
      | Some g \<Rightarrow> Inr (Name g))"
  by (induction gs) (auto simp: contains_iff)

text \<open>
  C1, as the claim states it, fails: in \<^term>\<open>alias_shadow_config\<close> the entry named
  \<open>main\<close> stands second and the first entry \<open>prod\<close> has the alias \<open>main\<close>. The code answers
  \<open>prod\<close>; the two-pass lookup of the claim prefers the name match and answers \<open>main\<close>.
\<close>

theorem C1_name_not_preferred_counterexample:
  "GardenName alias_shadow_config ''main'' = Inr ''prod'' \<and>
   ResolveName_spec alias_shadow_config ''main'' = Inr ''main'' \<and>
   GardenName alias_shadow_config ''main'' \<noteq> ResolveName_spec alias_shadow_config ''main''"
  by (simp add: GardenName_def ResolveName_spec_def alias_shadow_config_def)

text \<open>
  C1, amended: \<^verbatim>\<open>GardenName\<close> makes one pass in document order and returns the name of the
  first entry whose name equals the input or one of whose aliases equals the input, whichever
  entry comes first; when no entry has the input as name or alias it fails with the error
  that carries the unresolved token.
\<close>

theorem C1_first_entry_by_name_or_alias:
  "GardenName config x =
     (case find (\<lambda>g. Name g = x \<or> x \<in> set (Aliases g)) (Gardens config) of
        None \<Rightarrow> Inl (NotFoundError x)
      | Some g \<Rightarrow> Inr (Name g))"
  unfolding GardenName_def by (rule GardenName_loop_find)

theorem C1_first_entry_by_name_or_alias_witness:
  "GardenName alias_shadow_config ''main'' = Inr ''prod'' \<and>
   GardenName alias_shadow_config ''prod'' = Inr ''prod'' \<and>
   GardenName alias_shadow_config ''dev'' = Inl (NotFoundError ''dev'')"
  using C1_first_entry_by_name_or_alias [of alias_shadow_config "''main''"]
        C1_first_entry_by_name_or_alias [of alias_shadow_config "''prod''"]
        C1_first_entry_by_name_or_alias [of alias_shadow_config "''dev''"]
  by (simp add: alias_shadow_config_def)

section \<open>Splitting at newlines\<close>

lemma Split_not_Nil: "Split s sep \<noteq> []"
  by (induction s) (auto split: list.splits)

lemma Split_line: "sep \<notin> set w \<Longrightarrow> Split (w @ sep # s) sep = w # Split s sep"
  by (induction w) (auto split: list.splits simp: Split_not_Nil)

lemma Split_no_sep: "sep \<notin> set w \<Longrightarrow> Split w sep = [w]"
  by (induction w) (auto split: list.splits)

lemma Split_Join:
  "ws \<noteq> [] \<Longrightarrow> \<forall>w\<in>set ws. sep \<notin> set w \<Longrightarrow> Split (Join ws sep) sep = ws"
  by (induction ws sep rule: Join.induct) (simp_all add: Split_no_sep Split_line)

lemma Join_Cons_Cons: "Join ((c # w) # ws) sep = c # Join (w # ws) sep"
  by (cases ws) simp_all

lemma Join_Nil_Cons: "ws \<noteq> [] \<Longrightarrow> Join ([] # ws) sep = sep # Join ws sep"
  by (cases ws) simp_all

lemma Join_Split: "Join (Split s sep) sep = s"
  by (induction s) (auto split: list.splits simp: Join_Cons_Cons Join_Nil_Cons Split_not_Nil)

lemma Split_pieces: "w \<in> set (Split s sep) \<Longrightarrow> sep \<notin> set w"
  by (induction s arbitrary: w) (auto split: list.splits if_splits)

lemma lines_of_Split: "lines_of s (Split s newline)"
  by (auto simp: lines_of_def Split_not_Nil Join_Split dest: Split_pieces)

lemma lines_of_unique: "lines_of s ws \<Longrightarrow> ws = Split s newline"
  unfolding lines_of_def using Split_Join [of ws newline] by auto

lemma removeLastStrIfEmpty_last:
  "ws \<noteq> [] \<Longrightarrow> removeLastStrIfEmpty ws = (if last ws = [] then butlast ws else ws)"
  by (simp add: removeLastStrIfEmpty_def last_conv_nth butlast_conv_take)

text \<open>
  What the code computes from a metadata value: the one list of its lines, without the last
  line when that one is empty.
\<close>

lemma trimmed_lines:
  "\<exists>ws. lines_of s ws \<and> (\<forall>vs. lines_of s vs \<longrightarrow> vs = ws) \<and>
        removeLastStrIfEmpty (Split s newline) = (if last ws = [] then butlast ws else ws)"
proof (intro exI conjI)
  show "lines_of s (Split s newline)" by (rule lines_of_Split)
  show "\<forall>vs. lines_of s vs \<longrightarrow> vs = Split s newline" by (auto dest: lines_of_unique)
  show "removeLastStrIfEmpty (Split s newline)
      = (if last (Split s newline) = [] then butlast (Split s newline) else Split s newline)"
    by (rule removeLastStrIfEmpty_last) (rule Split_not_Nil)
qed

section \<open>Removing duplicates\<close>








section \<open>Adding a garden: results\<close>

lemma AddGarden_exists_iff: "AddGarden_exists gs name \<longleftrightarrow> name \<in> Name ` set gs"
  by (induction gs) auto


lemma AddGarden_Gardens:
  "name \<notin> Name ` set (Gardens config) \<Longrightarrow>
   Gardens (fst (snd (AddGarden env name kubeconfigFile contextName (Some cm)
       configFilename (config, fs))))
   = Gardens config @
     [\<lparr>Name = name, Identity = index_map (Data cm) ''identity'', Context = contextName,
       Kubeconfig = kubeconfigFile,
       Aliases = removeLastStrIfEmpty (Split (index_map (Data cm) ''aliases'') newline)\<rparr>]"
  by (simp add: AddGarden_def AddGarden_exists_iff Let_def)



text \<open>
  C2, as the claim states it, fails: the metadata value \<open>a\<close>, newline, \<open>a\<close>, newline gives the
  new entry the aliases \<open>[a, a]\<close>. \<^verbatim>\<open>removeDuplicateStr\<close> is applied to the match patterns
  only.
\<close>

theorem C2_aliases_repeated_counterexample:
  "Aliases (last (Gardens (fst (snd (AddGarden example_os ''g'' ''/kubeconfig'' ''ctx''
      (Some repeated_alias_metadata) ''/config'' (empty_config, Map.empty))))))
   = [''a'', ''a''] \<and>
   \<not> distinct (Aliases (last (Gardens (fst (snd (AddGarden example_os ''g'' ''/kubeconfig''
      ''ctx'' (Some repeated_alias_metadata) ''/config'' (empty_config, Map.empty)))))))"
  by (simp add: AddGarden_def empty_config_def repeated_alias_metadata_def index_map_def
      removeLastStrIfEmpty_def Let_def newline_def)

text \<open>
  C2, amended: for every call of \<^verbatim>\<open>AddGarden\<close> that is not rejected (the name is new and
  the metadata are there), with \<open>s\<close> the metadata value \<open>aliases\<close> (the empty string when
  the key is absent): \<open>s\<close> has exactly one list \<open>ws\<close> of newline-separated values, and the
  entry appended to Gardens has as aliases this list, in its order and with every repetition
  kept, without its last element when that one is empty. Nothing else is dropped and
  nothing is deduplicated.
\<close>

theorem C2_aliases_are_the_lines:
  assumes "name \<notin> Name ` set (Gardens config)"
    and "s = (case Data cm ''aliases'' of None \<Rightarrow> [] | Some v \<Rightarrow> v)"
  shows "\<exists>ws. lines_of s ws \<and> (\<forall>vs. lines_of s vs \<longrightarrow> vs = ws) \<and>
     Gardens (fst (snd (AddGarden env name kubeconfigFile contextName (Some cm)
        configFilename (config, fs))))
     = Gardens config @
       [\<lparr>Name = name,
         Identity = (case Data cm ''identity'' of None \<Rightarrow> [] | Some v \<Rightarrow> v),
         Context = contextName, Kubeconfig = kubeconfigFile,
         Aliases = (if last ws = [] then butlast ws else ws)\<rparr>]"
proof -
  from trimmed_lines [of s] obtain ws where
    ws: "lines_of s ws" "\<forall>vs. lines_of s vs \<longrightarrow> vs = ws"
    and trim: "removeLastStrIfEmpty (Split s newline) = (if last ws = [] then butlast ws else ws)"
    by blast
  from assms(2) have s: "index_map (Data cm) ''aliases'' = s"
    by (simp add: index_map_def)
  have "Gardens (fst (snd (AddGarden env name kubeconfigFile contextName (Some cm)
        configFilename (config, fs))))
     = Gardens config @
       [\<lparr>Name = name,
         Identity = (case Data cm ''identity'' of None \<Rightarrow> [] | Some v \<Rightarrow> v),
         Context = contextName, Kubeconfig = kubeconfigFile,
         Aliases = (if last ws = [] then butlast ws else ws)\<rparr>]"
    unfolding AddGarden_Gardens [OF assms(1)] s trim by (simp add: index_map_def)
  with ws show ?thesis by blast
qed

text \<open>
  Three values of \<open>aliases\<close>: a repeated line with a final newline, a line followed by an
  empty line and a final newline (only the last empty element goes), and no value at all.
\<close>

theorem C2_aliases_are_the_lines_witness:
  "Gardens (fst (snd (AddGarden example_os ''g'' ''/kubeconfig'' ''ctx''
      (Some repeated_alias_metadata) ''/config'' (empty_config, Map.empty))))
   = [\<lparr>Name = ''g'', Identity = [], Context = ''ctx'', Kubeconfig = ''/kubeconfig'',
       Aliases = [''a'', ''a'']\<rparr>] \<and>
   Gardens (fst (snd (AddGarden example_os ''g'' ''/kubeconfig'' ''ctx''
      (Some blank_line_alias_metadata) ''/config'' (empty_config, Map.empty))))
   = [\<lparr>Name = ''g'', Identity = [], Context = ''ctx'', Kubeconfig = ''/kubeconfig'',
       Aliases = [''a'', []]\<rparr>] \<and>
   Gardens (fst (snd (AddGarden example_os ''g'' ''/kubeconfig'' ''ctx''
      (Some p1p2_metadata) ''/config'' (empty_config, Map.empty))))
   = [\<lparr>Name = ''g'', Identity = [], Context = ''ctx'', Kubeconfig = ''/kubeconfig'',
       Aliases = []\<rparr>]"
proof -
  have new: "''g'' \<notin> Name ` set (Gardens empty_config)"
    by (simp add: empty_config_def)
  have l1: "lines_of (case Data repeated_alias_metadata ''aliases'' of None \<Rightarrow> [] | Some v \<Rightarrow> v)
      [''a'', ''a'', []]"
    by (simp add: lines_of_def repeated_alias_metadata_def newline_def)
  have l2: "lines_of (case Data blank_line_alias_metadata ''aliases'' of None \<Rightarrow> [] | Some v \<Rightarrow> v)
      [''a'', [], []]"
    by (simp add: lines_of_def blank_line_alias_metadata_def newline_def)
  have l3: "lines_of (case Data p1p2_metadata ''aliases'' of None \<Rightarrow> [] | Some v \<Rightarrow> v) [[]]"
    by (simp add: lines_of_def p1p2_metadata_def)
  from C2_aliases_are_the_lines [OF new refl, of repeated_alias_metadata example_os
      "''/kubeconfig''" "''ctx''" "''/config''" Map.empty] l1
  have "Gardens (fst (snd (AddGarden example_os ''g'' ''/kubeconfig'' ''ctx''
      (Some repeated_alias_metadata) ''/config'' (empty_config, Map.empty))))
   = [\<lparr>Name = ''g'', Identity = [], Context = ''ctx'', Kubeconfig = ''/kubeconfig'',
       Aliases = [''a'', ''a'']\<rparr>]"
    by (auto simp: empty_config_def repeated_alias_metadata_def)
  moreover
  from C2_aliases_are_the_lines [OF new refl, of blank_line_alias_metadata example_os
      "''/kubeconfig''" "''ctx''" "''/config''" Map.empty] l2
  have "Gardens (fst (snd (AddGarden example_os ''g'' ''/kubeconfig'' ''ctx''
      (Some blank_line_alias_metadata) ''/config'' (empty_config, Map.empty))))
   = [\<lparr>Name = ''g'', Identity = [], Context = ''ctx'', Kubeconfig = ''/kubeconfig'',
       Aliases = [''a'', []]\<rparr>]"
    by (auto simp: empty_config_def blank_line_alias_metadata_def)
  moreover
  from C2_aliases_are_the_lines [OF new refl, of p1p2_metadata example_os
      "''/kubeconfig''" "''ctx''" "''/config''" Map.empty] l3
  have "Gardens (fst (snd (AddGarden example_os ''g'' ''/kubeconfig'' ''ctx''
      (Some p1p2_metadata) ''/config'' (empty_config, Map.empty))))
   = [\<lparr>Name = ''g'', Identity = [], Context = ''ctx'', Kubeconfig = ''/kubeconfig'',
       Aliases = []\<rparr>]"
    by (auto simp: empty_config_def p1p2_metadata_def)
  ultimately show ?thesis by simp
qed

text \<open>
  C5: \<^verbatim>\<open>AddGarden\<close> with a name that a garden of the configuration has returns the
  duplicate-name error and leaves the configuration (Gardens and match patterns) and the
  file system as they were, whatever the other arguments are.
\<close>

theorem C5_duplicate_name_no_mutation:
  "name \<in> Name ` set (Gardens config) \<Longrightarrow>
   AddGarden env name kubeconfigFile contextName clusterConfig configFilename (config, fs)
     = (Some (DuplicateNameError name), config, fs)"
  by (simp add: AddGarden_def AddGarden_exists_iff)

theorem C5_duplicate_name_no_mutation_witness:
  "AddGarden example_os ''main'' ''/kubeconfig'' ''ctx'' (Some p1p2_metadata) ''/config''
     (alias_shadow_config, Map.empty)
   = (Some (DuplicateNameError ''main''), alias_shadow_config, Map.empty)"
  using C5_duplicate_name_no_mutation [of "''main''" alias_shadow_config example_os
      "''/kubeconfig''" "''ctx''" "Some p1p2_metadata" "''/config''" Map.empty]
  by (simp add: alias_shadow_config_def)



section \<open>Loading: results\<close>

text \<open>
  C9: when the file exists with no bytes and can be opened and inspected, \<^verbatim>\<open>LoadFromFile\<close>
  returns the zero-value document, with no gardens and no match patterns, and not an error.
  This holds for every decoder and every path expansion, also for ones that fail on every
  input: neither is applied to an empty file.
\<close>

theorem C9_empty_file_loads_zero_document:
  assumes "fs filename = Some []" and "Open_err env filename = None"
    and "Stat_err env filename = None"
  shows "LoadFromFile (env\<lparr>yaml_Decode := decode, homedir_Expand := expand\<rparr>) fs filename
         = Inr \<lparr>Gardens = [], MatchPatterns = []\<rparr>"
  using assms by (simp add: LoadFromFile_def)

theorem C9_empty_file_loads_zero_document_witness:
  "LoadFromFile example_os [''/config'' \<mapsto> []] ''/config''
   = Inr \<lparr>Gardens = [], MatchPatterns = []\<rparr>"
  using C9_empty_file_loads_zero_document [where fs = "[''/config'' \<mapsto> []]"
      and filename = "''/config''" and env = example_os
      and decode = "\<lambda>bytes. Inl ''cannot decode''"
      and expand = "\<lambda>path. Inl ''no home directory''"]
  by (simp add: example_os_def)

section \<open>Matching: results\<close>

lemma MatchPattern_loop_skip:
  "\<forall>q\<in>set ps. \<exists>r. Compile lib q = Inr r \<and> FindStringSubmatch lib r input = None \<Longrightarrow>
   MatchPattern_loop lib (ps @ rest) input = MatchPattern_loop lib rest input"
  by (induction ps) auto

lemma MatchPattern_loop_winner:
  assumes "\<forall>q\<in>set ps. \<exists>r. Compile lib q = Inr r \<and> FindStringSubmatch lib r input = None"
    and "Compile lib p = Inr r" and "FindStringSubmatch lib r input = Some ms"
  shows "MatchPattern_loop lib (ps @ p # rest) input =
         MatchPattern_names (SubexpNames lib r) 0 ms
           \<lparr>Garden = [], Project = [], Namespace = [], Shoot = []\<rparr>"
  using assms by (simp add: MatchPattern_loop_skip)

lemma MatchPattern_names_not_NoMatch:
  "MatchPattern_names names i ms tm \<noteq> Inl NoMatchError"
  by (induction names i ms tm rule: MatchPattern_names.induct) auto

lemma MatchPattern_loop_NoMatch_iff:
  "MatchPattern_loop lib ps input = Inl NoMatchError \<longleftrightarrow>
   (\<forall>q\<in>set ps. \<exists>r. Compile lib q = Inr r \<and> FindStringSubmatch lib r input = None)"
  by (induction ps) (auto simp: MatchPattern_names_not_NoMatch split: sum.splits option.splits)

lemma MatchPattern_names_unrecognized:
  "set names \<inter> {PatternKeyGarden, PatternKeyProject, PatternKeyNamespace, PatternKeyShoot} = {}
   \<Longrightarrow> MatchPattern_names names i ms tm = Inr tm"
  by (induction names arbitrary: i) auto

lemmas PatternKey_defs =
  PatternKeyGarden_def PatternKeyProject_def PatternKeyNamespace_def PatternKeyShoot_def

text \<open>One round of the inner loop, when the index is in range.\<close>

lemma MatchPattern_names_step:
  "i < length ms \<Longrightarrow>
   MatchPattern_names (n # ns) i ms tm = MatchPattern_names ns (Suc i) ms (MatchPattern_case n (ms ! i) tm)"
  by (simp add: MatchPattern_case_def)

text \<open>
  The invariant of the inner loop for one field \<open>g\<close> and its key \<open>k\<close>: the field keeps what
  it has while the key does not come, and holds the text at the last position of the key.
\<close>

lemma MatchPattern_names_field:
  assumes g: "\<And>n v tm. g (MatchPattern_case n v tm) = (if n = k then v else g tm)"
    and len: "i + length names \<le> length ms"
  shows "\<exists>tm'. MatchPattern_names names i ms tm = Inr tm' \<and>
     (k \<notin> set names \<longrightarrow> g tm' = g tm) \<and>
     (\<forall>j<length names. names ! j = k \<and> k \<notin> set (drop (Suc j) names) \<longrightarrow> g tm' = ms ! (i + j))"
  using len
proof (induction names arbitrary: i tm)
  case Nil
  then show ?case by simp
next
  case (Cons n ns)
  define tm1 where "tm1 = MatchPattern_case n (ms ! i) tm"
  from Cons.prems have step:
    "MatchPattern_names (n # ns) i ms tm = MatchPattern_names ns (Suc i) ms tm1"
    unfolding tm1_def by (intro MatchPattern_names_step) simp
  from Cons.prems have "Suc i + length ns \<le> length ms" by simp
  from Cons.IH [OF this, of tm1] obtain tm' where
    r: "MatchPattern_names ns (Suc i) ms tm1 = Inr tm'"
    and a: "k \<notin> set ns \<longrightarrow> g tm' = g tm1"
    and b: "\<forall>j<length ns. ns ! j = k \<and> k \<notin> set (drop (Suc j) ns) \<longrightarrow> g tm' = ms ! (Suc i + j)"
    by blast
  have g1: "g tm1 = (if n = k then ms ! i else g tm)"
    unfolding tm1_def by (rule g)
  have "k \<notin> set (n # ns) \<longrightarrow> g tm' = g tm"
    using a g1 by auto
  moreover have "\<forall>j<length (n # ns). (n # ns) ! j = k \<and> k \<notin> set (drop (Suc j) (n # ns))
      \<longrightarrow> g tm' = ms ! (i + j)"
  proof (intro allI impI)
    fix j assume "j < length (n # ns)"
      and h: "(n # ns) ! j = k \<and> k \<notin> set (drop (Suc j) (n # ns))"
    show "g tm' = ms ! (i + j)"
    proof (cases j)
      case 0
      with h a g1 show ?thesis by simp
    next
      case (Suc j')
      with h b \<open>j < length (n # ns)\<close> show ?thesis by simp
    qed
  qed
  ultimately show ?case using step r by simp
qed

lemma MatchPattern_names_fields:
  assumes "length ms = length names"
  shows "\<exists>tm. MatchPattern_names names 0 ms
            \<lparr>Garden = [], Project = [], Namespace = [], Shoot = []\<rparr> = Inr tm \<and>
          field_of_group PatternKeyGarden (Garden tm) names ms \<and>
          field_of_group PatternKeyProject (Project tm) names ms \<and>
          field_of_group PatternKeyNamespace (Namespace tm) names ms \<and>
          field_of_group PatternKeyShoot (Shoot tm) names ms"
proof -
  let ?zero = "\<lparr>Garden = [], Project = [], Namespace = [], Shoot = []\<rparr>"
  from assms have len: "0 + length names \<le> length ms" by simp
  have "\<exists>tm. MatchPattern_names names 0 ms ?zero = Inr tm \<and>
      field_of_group PatternKeyGarden (Garden tm) names ms"
    using MatchPattern_names_field [where g = Garden and k = PatternKeyGarden, OF _ len, of ?zero]
    by (simp add: MatchPattern_case_def PatternKey_defs field_of_group_def)
  moreover have "\<exists>tm. MatchPattern_names names 0 ms ?zero = Inr tm \<and>
      field_of_group PatternKeyProject (Project tm) names ms"
    using MatchPattern_names_field [where g = Project and k = PatternKeyProject, OF _ len, of ?zero]
    by (simp add: MatchPattern_case_def PatternKey_defs field_of_group_def)
  moreover have "\<exists>tm. MatchPattern_names names 0 ms ?zero = Inr tm \<and>
      field_of_group PatternKeyNamespace (Namespace tm) names ms"
    using MatchPattern_names_field [where g = Namespace and k = PatternKeyNamespace, OF _ len, of ?zero]
    by (simp add: MatchPattern_case_def PatternKey_defs field_of_group_def)
  moreover have "\<exists>tm. MatchPattern_names names 0 ms ?zero = Inr tm \<and>
      field_of_group PatternKeyShoot (Shoot tm) names ms"
    using MatchPattern_names_field [where g = Shoot and k = PatternKeyShoot, OF _ len, of ?zero]
    by (simp add: MatchPattern_case_def PatternKey_defs field_of_group_def)
  ultimately show ?thesis by auto
qed

text \<open>
  Groups without a recognized name do not count: the loop gives the same on the recognized
  names alone, each with its text.
\<close>

lemma MatchPattern_names_recognized_only:
  assumes "i + length names \<le> length ms" and "length pre = j"
    and "kept = filter (\<lambda>(n, v). recognized n) (zip names (drop i ms))"
  shows "MatchPattern_names names i ms tm =
         MatchPattern_names (map fst kept) j (pre @ map snd kept) tm"
  using assms
proof (induction names arbitrary: i j pre kept tm)
  case Nil
  then show ?case by simp
next
  case (Cons n ns)
  from Cons.prems(1) have i: "i < length ms" and len: "Suc i + length ns \<le> length ms"
    by simp_all
  from i have d: "drop i ms = ms ! i # drop (Suc i) ms"
    by (simp add: Cons_nth_drop_Suc)
  define kept' where "kept' = filter (\<lambda>(n, v). recognized n) (zip ns (drop (Suc i) ms))"
  show ?case
  proof (cases "recognized n")
    case True
    with Cons.prems(3) d have k: "kept = (n, ms ! i) # kept'"
      by (simp add: kept'_def)
    have IH: "MatchPattern_names ns (Suc i) ms tm1 =
        MatchPattern_names (map fst kept') (Suc j) ((pre @ [ms ! i]) @ map snd kept') tm1" for tm1
      using len Cons.prems(2) kept'_def by (intro Cons.IH) simp_all
    have "MatchPattern_names (n # ns) i ms tm =
        MatchPattern_names ns (Suc i) ms (MatchPattern_case n (ms ! i) tm)"
      using i by (rule MatchPattern_names_step)
    moreover have "MatchPattern_names (map fst kept) j (pre @ map snd kept) tm =
        MatchPattern_names (map fst kept') (Suc j) (pre @ map snd kept)
          (MatchPattern_case n ((pre @ map snd kept) ! j) tm)"
      unfolding k using Cons.prems(2) by (simp add: MatchPattern_case_def)
    moreover have "(pre @ map snd kept) ! j = ms ! i"
      unfolding k using Cons.prems(2) by (simp add: nth_append)
    ultimately show ?thesis using IH k by simp
  next
    case False
    with Cons.prems(3) d have k: "kept = kept'"
      by (simp add: kept'_def)
    from False have "MatchPattern_names (n # ns) i ms tm = MatchPattern_names ns (Suc i) ms tm"
      by (simp add: recognized_def)
    also have "\<dots> = MatchPattern_names (map fst kept') j (pre @ map snd kept') tm"
      using len Cons.prems(2) kept'_def by (intro Cons.IH) simp_all
    finally show ?thesis using k by simp
  qed
qed

subsection \<open>The example patterns, evaluated\<close>

lemma Compile_garden_pattern: "re_Compile garden_pattern = Inr garden_regexp"
  unfolding garden_pattern_def garden_regexp_def by code_simp

lemma Compile_garden_project_pattern:
  "re_Compile garden_project_pattern = Inr garden_project_regexp"
  unfolding garden_project_pattern_def garden_project_regexp_def by code_simp

lemma Compile_mixed_pattern: "re_Compile mixed_pattern = Inr mixed_regexp"
  unfolding mixed_pattern_def mixed_regexp_def by code_simp

lemma Compile_unrecognized_pattern: "re_Compile unrecognized_pattern = Inr unrecognized_regexp"
  unfolding unrecognized_pattern_def unrecognized_regexp_def by code_simp

lemma Compile_open_paren: "re_Compile ''('' = Inl ''missing closing )''"
  by code_simp

lemma Find_garden_foo_bar: "re_FindStringSubmatch garden_regexp ''foo/bar'' = None"
  unfolding garden_regexp_def by code_simp

lemma Find_garden_foo: "re_FindStringSubmatch garden_regexp ''foo'' = Some [''foo'', ''foo'']"
  unfolding garden_regexp_def by code_simp

lemma Find_garden_project_foo_bar:
  "re_FindStringSubmatch garden_project_regexp ''foo/bar'' = Some [''foo/bar'', ''foo'', ''bar'']"
  unfolding garden_project_regexp_def by code_simp

lemma Find_garden_project_foo: "re_FindStringSubmatch garden_project_regexp ''foo'' = None"
  unfolding garden_project_regexp_def by code_simp

lemma Find_garden_Foo: "re_FindStringSubmatch garden_regexp ''Foo'' = None"
  unfolding garden_regexp_def by code_simp

lemma Find_garden_project_Foo: "re_FindStringSubmatch garden_project_regexp ''Foo'' = None"
  unfolding garden_project_regexp_def by code_simp

lemma Find_garden_abc_42: "re_FindStringSubmatch garden_regexp ''abc-42'' = None"
  unfolding garden_regexp_def by code_simp

lemma Find_mixed:
  "re_FindStringSubmatch mixed_regexp ''foo/bar/12/''
   = Some [''foo/bar/12/'', ''foo'', ''bar'', ''12'', []]"
  unfolding mixed_regexp_def by code_simp

lemma Find_unrecognized:
  "re_FindStringSubmatch unrecognized_regexp ''abc-42'' = Some [''abc-42'', ''abc'', ''42'']"
  unfolding unrecognized_regexp_def by code_simp

lemma example_names:
  "subexpNames garden_regexp = [[], ''garden'']"
  "subexpNames garden_project_regexp = [[], ''garden'', ''project'']"
  "subexpNames mixed_regexp = [[], ''garden'', ''seed'', [], ''shoot'']"
  "subexpNames unrecognized_regexp = [[], [], ''seed'']"
  by (simp_all add: garden_regexp_def garden_project_regexp_def mixed_regexp_def
      unrecognized_regexp_def)

lemmas example_evals =
  example_names
  Compile_garden_pattern Compile_garden_project_pattern Compile_mixed_pattern
  Compile_unrecognized_pattern Compile_open_paren
  Find_garden_foo_bar Find_garden_foo Find_garden_project_foo_bar Find_garden_project_foo
  Find_garden_Foo Find_garden_project_Foo Find_garden_abc_42 Find_mixed Find_unrecognized

lemma go_regexp_simps:
  "Compile go_regexp = re_Compile"
  "SubexpNames go_regexp = subexpNames"
  "FindStringSubmatch go_regexp = re_FindStringSubmatch"
  by (auto simp: go_regexp_def re_SubexpNames_def)

subsection \<open>The claims on matching\<close>

text \<open>
  C3: the patterns are tried in list order and the first one that matches gives the result.
  When the patterns \<open>ps\<close> before \<open>p\<close> compile and do not match the input and \<open>p\<close> matches it,
  the result is what the names and texts of \<open>p\<close> give; it is the result of the list \<open>[p]\<close>
  alone, whatever patterns \<open>rest\<close> follow. With the two patterns of the example and the
  library fragment \<^const>\<open>go_regexp\<close>, the input \<open>foo/bar\<close> gives garden \<open>foo\<close> and project
  \<open>bar\<close>, which comes from the second pattern since the first alone matches nothing; the
  input \<open>foo\<close> gives garden \<open>foo\<close> and the other fields empty, as the first pattern alone
  does.
\<close>

theorem C3_first_matching_pattern_wins:
  assumes "\<forall>q\<in>set ps. \<exists>r. Compile lib q = Inr r \<and> FindStringSubmatch lib r input = None"
    and "Compile lib p = Inr r" and "FindStringSubmatch lib r input = Some ms"
  shows "MatchPattern lib (config\<lparr>MatchPatterns := ps @ p # rest\<rparr>) input
           = MatchPattern_names (SubexpNames lib r) 0 ms
               \<lparr>Garden = [], Project = [], Namespace = [], Shoot = []\<rparr> \<and>
         MatchPattern lib (config\<lparr>MatchPatterns := ps @ p # rest\<rparr>) input
           = MatchPattern lib (config\<lparr>MatchPatterns := [p]\<rparr>) input \<and>
         MatchPattern go_regexp two_patterns_config ''foo/bar''
           = Inr \<lparr>Garden = ''foo'', Project = ''bar'', Namespace = [], Shoot = []\<rparr> \<and>
         MatchPattern go_regexp (two_patterns_config\<lparr>MatchPatterns := [garden_pattern]\<rparr>)
             ''foo/bar''
           = Inl NoMatchError \<and>
         MatchPattern go_regexp two_patterns_config ''foo''
           = Inr \<lparr>Garden = ''foo'', Project = [], Namespace = [], Shoot = []\<rparr> \<and>
         MatchPattern go_regexp (two_patterns_config\<lparr>MatchPatterns := [garden_pattern]\<rparr>)
             ''foo''
           = Inr \<lparr>Garden = ''foo'', Project = [], Namespace = [], Shoot = []\<rparr>"
proof -
  have whole: "MatchPattern lib (config\<lparr>MatchPatterns := ps @ p # rest\<rparr>) input
      = MatchPattern_names (SubexpNames lib r) 0 ms
          \<lparr>Garden = [], Project = [], Namespace = [], Shoot = []\<rparr>"
    using assms by (simp add: MatchPattern_def MatchPattern_loop_winner)
  have alone: "MatchPattern lib (config\<lparr>MatchPatterns := [p]\<rparr>) input
      = MatchPattern_names (SubexpNames lib r) 0 ms
          \<lparr>Garden = [], Project = [], Namespace = [], Shoot = []\<rparr>"
    using assms(2,3) by (simp add: MatchPattern_def)
  have examples:
    "MatchPattern go_regexp two_patterns_config ''foo/bar''
       = Inr \<lparr>Garden = ''foo'', Project = ''bar'', Namespace = [], Shoot = []\<rparr>"
    "MatchPattern go_regexp (two_patterns_config\<lparr>MatchPatterns := [garden_pattern]\<rparr>) ''foo/bar''
       = Inl NoMatchError"
    "MatchPattern go_regexp two_patterns_config ''foo''
       = Inr \<lparr>Garden = ''foo'', Project = [], Namespace = [], Shoot = []\<rparr>"
    "MatchPattern go_regexp (two_patterns_config\<lparr>MatchPatterns := [garden_pattern]\<rparr>) ''foo''
       = Inr \<lparr>Garden = ''foo'', Project = [], Namespace = [], Shoot = []\<rparr>"
    by (simp_all add: MatchPattern_def two_patterns_config_def go_regexp_simps example_evals
        PatternKey_defs)
  from whole alone examples show ?thesis by simp
qed

theorem C3_first_matching_pattern_wins_witness:
  "MatchPattern go_regexp
     \<lparr>Gardens = [], MatchPatterns = [garden_pattern, garden_project_pattern, ''('']\<rparr> ''foo/bar''
   = Inr \<lparr>Garden = ''foo'', Project = ''bar'', Namespace = [], Shoot = []\<rparr> \<and>
   MatchPattern go_regexp two_patterns_config ''foo/bar''
   = Inr \<lparr>Garden = ''foo'', Project = ''bar'', Namespace = [], Shoot = []\<rparr> \<and>
   MatchPattern go_regexp two_patterns_config ''foo''
   = Inr \<lparr>Garden = ''foo'', Project = [], Namespace = [], Shoot = []\<rparr>"
  using C3_first_matching_pattern_wins [where lib = go_regexp and ps = "[garden_pattern]"
      and p = garden_project_pattern and rest = "[''('']" and r = garden_project_regexp
      and ms = "[''foo/bar'', ''foo'', ''bar'']" and input = "''foo/bar''"
      and config = empty_config]
  by (simp add: empty_config_def go_regexp_simps example_evals PatternKey_defs)

text \<open>
  C4: when the patterns before \<open>p\<close> compile and do not match the input and \<open>p\<close> does not
  compile, \<^verbatim>\<open>MatchPattern\<close> returns the compile error, which carries \<open>p\<close> and the message of
  the library, whatever patterns follow: the pattern is not skipped, and no later pattern is
  tried.
\<close>

theorem C4_malformed_pattern_aborts:
  assumes "\<forall>q\<in>set ps. \<exists>r. Compile lib q = Inr r \<and> FindStringSubmatch lib r input = None"
    and "Compile lib p = Inl err"
  shows "MatchPattern lib (config\<lparr>MatchPatterns := ps @ p # rest\<rparr>) input
         = Inl (PatternCompileError p err)"
  using assms by (simp add: MatchPattern_def MatchPattern_loop_skip)

theorem C4_malformed_pattern_aborts_witness:
  "MatchPattern go_regexp
     \<lparr>Gardens = [], MatchPatterns = [garden_project_pattern, ''('', garden_pattern]\<rparr> ''foo''
   = Inl (PatternCompileError ''('' ''missing closing )'') \<and>
   MatchPattern go_regexp
     \<lparr>Gardens = [], MatchPatterns = [garden_project_pattern, garden_pattern]\<rparr> ''foo''
   = Inr \<lparr>Garden = ''foo'', Project = [], Namespace = [], Shoot = []\<rparr>"
  using C4_malformed_pattern_aborts [where lib = go_regexp and ps = "[garden_project_pattern]"
      and p = "''(''" and rest = "[garden_pattern]" and err = "''missing closing )''"
      and input = "''foo''" and config = empty_config]
  by (simp add: empty_config_def MatchPattern_def go_regexp_simps example_evals
      PatternKey_defs)

text \<open>
  C7: for the winning pattern \<open>p\<close>, whose library result has one text per group name, the
  match succeeds and each of the four fields is settled by the groups of its own key
  alone: it is empty when no group of the pattern has that name, and it is the text of the
  group of that name otherwise, so it is empty too when that group captured no text. Groups
  with another name and unnamed groups are ignored: the same result comes from the
  recognized names with their texts alone.
\<close>

theorem C7_fields_from_recognized_groups:
  assumes "\<forall>q\<in>set ps. \<exists>r. Compile lib q = Inr r \<and> FindStringSubmatch lib r input = None"
    and "Compile lib p = Inr r" and "FindStringSubmatch lib r input = Some ms"
    and "length ms = length (SubexpNames lib r)"
    and "kept = filter (\<lambda>(n, v). recognized n) (zip (SubexpNames lib r) ms)"
  shows "\<exists>tm. MatchPattern lib (config\<lparr>MatchPatterns := ps @ p # rest\<rparr>) input = Inr tm \<and>
           field_of_group PatternKeyGarden (Garden tm) (SubexpNames lib r) ms \<and>
           field_of_group PatternKeyProject (Project tm) (SubexpNames lib r) ms \<and>
           field_of_group PatternKeyNamespace (Namespace tm) (SubexpNames lib r) ms \<and>
           field_of_group PatternKeyShoot (Shoot tm) (SubexpNames lib r) ms \<and>
           MatchPattern_names (map fst kept) 0 (map snd kept)
             \<lparr>Garden = [], Project = [], Namespace = [], Shoot = []\<rparr> = Inr tm"
proof -
  let ?zero = "\<lparr>Garden = [], Project = [], Namespace = [], Shoot = []\<rparr>"
  have whole: "MatchPattern lib (config\<lparr>MatchPatterns := ps @ p # rest\<rparr>) input
      = MatchPattern_names (SubexpNames lib r) 0 ms ?zero"
    using assms(1-3) by (simp add: MatchPattern_def MatchPattern_loop_winner)
  have "MatchPattern_names (SubexpNames lib r) 0 ms ?zero
      = MatchPattern_names (map fst kept) 0 ([] @ map snd kept) ?zero"
    using assms(4,5) by (intro MatchPattern_names_recognized_only) simp_all
  then have only: "MatchPattern_names (map fst kept) 0 (map snd kept) ?zero
      = MatchPattern_names (SubexpNames lib r) 0 ms ?zero"
    by simp
  from MatchPattern_names_fields [OF assms(4)] whole only show ?thesis
    by auto
qed

theorem C7_fields_from_recognized_groups_witness:
  "MatchPattern go_regexp \<lparr>Gardens = [], MatchPatterns = [mixed_pattern]\<rparr> ''foo/bar/12/''
   = Inr \<lparr>Garden = ''foo'', Project = [], Namespace = [], Shoot = []\<rparr>"
  using C7_fields_from_recognized_groups [where lib = go_regexp and ps = "[]"
      and p = mixed_pattern and rest = "[]" and r = mixed_regexp
      and ms = "[''foo/bar/12/'', ''foo'', ''bar'', ''12'', []]" and input = "''foo/bar/12/''"
      and kept = "[(''garden'', ''foo''), (''shoot'', [])]" and config = empty_config]
  by (auto simp: empty_config_def go_regexp_simps example_evals PatternKey_defs recognized_def)

text \<open>
  C8: \<^verbatim>\<open>MatchPattern\<close> returns the no-match error exactly when every pattern of the list
  compiles and none matches the input; a configuration without patterns always gives it.
\<close>

theorem C8_no_match_iff_all_compile_none_matches:
  "(MatchPattern lib config input = Inl NoMatchError \<longleftrightarrow>
      (\<forall>p\<in>set (MatchPatterns config).
         \<exists>r. Compile lib p = Inr r \<and> FindStringSubmatch lib r input = None)) \<and>
   (MatchPatterns config = [] \<longrightarrow> MatchPattern lib config input = Inl NoMatchError)"
  by (simp add: MatchPattern_def MatchPattern_loop_NoMatch_iff)

theorem C8_no_match_iff_all_compile_none_matches_witness:
  "MatchPattern go_regexp two_patterns_config ''Foo'' = Inl NoMatchError \<and>
   MatchPattern go_regexp empty_config ''Foo'' = Inl NoMatchError \<and>
   MatchPattern go_regexp two_patterns_config ''foo'' \<noteq> Inl NoMatchError"
  using C8_no_match_iff_all_compile_none_matches [of go_regexp two_patterns_config "''Foo''"]
    C8_no_match_iff_all_compile_none_matches [of go_regexp empty_config "''Foo''"]
    C8_no_match_iff_all_compile_none_matches [of go_regexp two_patterns_config "''foo''"]
  by (simp add: two_patterns_config_def empty_config_def go_regexp_simps example_evals)

text \<open>
  C10: when the winning pattern has no group with one of the four recognized names (its
  groups are unnamed or have other names), \<^verbatim>\<open>MatchPattern\<close> succeeds and all four fields of
  the result are empty; it does not return the no-match error.
\<close>

theorem C10_match_without_recognized_groups_is_empty:
  assumes "\<forall>q\<in>set ps. \<exists>r. Compile lib q = Inr r \<and> FindStringSubmatch lib r input = None"
    and "Compile lib p = Inr r" and "FindStringSubmatch lib r input = Some ms"
    and "\<forall>n\<in>set (SubexpNames lib r). \<not> recognized n"
  shows "MatchPattern lib (config\<lparr>MatchPatterns := ps @ p # rest\<rparr>) input
         = Inr \<lparr>Garden = [], Project = [], Namespace = [], Shoot = []\<rparr>"
proof -
  from assms(4) have "set (SubexpNames lib r) \<inter>
      {PatternKeyGarden, PatternKeyProject, PatternKeyNamespace, PatternKeyShoot} = {}"
    by (auto simp: recognized_def)
  then have "MatchPattern_names (SubexpNames lib r) 0 ms
      \<lparr>Garden = [], Project = [], Namespace = [], Shoot = []\<rparr>
    = Inr \<lparr>Garden = [], Project = [], Namespace = [], Shoot = []\<rparr>"
    by (rule MatchPattern_names_unrecognized)
  with assms(1-3) show ?thesis
    by (simp add: MatchPattern_def MatchPattern_loop_winner)
qed

theorem C10_match_without_recognized_groups_is_empty_witness:
  "MatchPattern go_regexp
     \<lparr>Gardens = [], MatchPatterns = [garden_pattern, unrecognized_pattern]\<rparr> ''abc-42''
   = Inr \<lparr>Garden = [], Project = [], Namespace = [], Shoot = []\<rparr>"
  using C10_match_without_recognized_groups_is_empty [where lib = go_regexp
      and ps = "[garden_pattern]" and p = unrecognized_pattern and rest = "[]"
      and r = unrecognized_regexp and ms = "[''abc-42'', ''abc'', ''42'']"
      and input = "''abc-42''" and config = empty_config]
  by (simp add: empty_config_def go_regexp_simps example_evals PatternKey_defs recognized_def)

end
